theory Spec2Isabelle
  imports Main "HOL-Library.Log_Nat"
begin

section \<open>crocoite IRC bot (\<open>crocoite/irc.py\<close>): data model\<close>

text \<open>
  Python exceptions that the modelled code can raise. An exception is a value: a function
  that can raise returns the exception next to (or instead of) its result.
\<close>

datatype exc =
    JSONDecodeError
  | AttributeError
  | TypeError
  | OverflowError
  | AssertionError
  | IndexError
  | OSError
  | ParserError string string

text \<open>\<open>class Status (IntEnum)\<close>.\<close>

datatype Status = Undefined | Pending | Running | Aborted | Finished

text \<open>
  Values produced by \<open>json.loads\<close>. A Python \<open>dict\<close> is an association list in insertion
  order (its keys are distinct); floats carry their value, or one of the three non-finite
  values that the decoder accepts.
\<close>

datatype pyfloat = Float rat | PosInf | NegInf | NaN

datatype json =
    JNull
  | JBool bool
  | JInt int
  | JFloat pyfloat
  | JStr string
  | JArr "json list"
  | JObj "(string \<times> json) list"

type_synonym dict = "(string \<times> json) list"

text \<open>\<open>d.get (k)\<close> on a dict: the value, or \<open>None\<close>.\<close>

definition dict_get :: "dict \<Rightarrow> string \<Rightarrow> json option" where
  "dict_get d k = map_of d k"

text \<open>
  An \<open>asyncio.subprocess.Process\<close>: \<open>returncode\<close> is \<open>None\<close> while the child is alive;
  \<open>sigterm\<close> records that \<open>terminate ()\<close> has been called on it.
\<close>

record Process =
  returncode :: "int option"
  sigterm :: bool

text \<open>\<open>class Job\<close>. Times are abstract clock readings.\<close>

record Job =
  id' :: string
  stats :: dict
  rstats :: dict
  started :: nat
  finished :: "nat option"
  url :: string
  nick :: string
  status :: Status
  process :: "Process option"

text \<open>\<open>Job.__init__ (url, nick)\<close>, with the fresh uuid and the clock reading as arguments.\<close>

definition newJob :: "string \<Rightarrow> nat \<Rightarrow> string \<Rightarrow> string \<Rightarrow> Job" where
  "newJob uuid now u n =
     \<lparr> id' = uuid, stats = [], rstats = [], started = now, finished = None,
       url = u, nick = n, status = Pending, process = None \<rparr>"

section \<open>Worker output\<close>

text \<open>
  The two message identifiers that \<open>handleArchive\<close> routes.
\<close>

definition statsUuid :: string where
  "statsUuid = ''24d92d16-770e-4088-b769-4020e127a7ff''"

definition rstatsUuid :: string where
  "rstatsUuid = ''5b8498e4-868d-413c-a67e-004516b8452c''"

text \<open>
  One result of \<open>await j.process.stdout.readline ()\<close>. \<open>json.loads\<close> belongs to the
  standard library, so a non-empty line is represented by what \<open>json.loads\<close> makes of it:
  the exception it raises, or the decoded value.
\<close>

datatype readline = Eof | Line "exc + json"

text \<open>
  The body of the \<open>while True\<close> loop of \<open>handleArchive\<close> for a non-empty line. The job is
  mutated in place, so the job comes back also when an exception leaves the loop:
  the status assignment precedes \<open>json.loads\<close>, and \<open>data.get\<close> exists on a dict only.
\<close>

definition processLine :: "Job \<Rightarrow> exc + json \<Rightarrow> Job \<times> exc option" where
  "processLine j loaded =
     (let j1 = (if status j = Pending then j\<lparr>status := Running\<rparr> else j) in
      case loaded of
        Inl e \<Rightarrow> (j1, Some e)
      | Inr data \<Rightarrow>
          (case data of
             JObj d \<Rightarrow>
               (let msgid = dict_get d ''uuid'' in
                if msgid = Some (JStr statsUuid) then (j1\<lparr>stats := d\<rparr>, None)
                else if msgid = Some (JStr rstatsUuid) then (j1\<lparr>rstats := d\<rparr>, None)
                else (j1, None))
           | _ \<Rightarrow> (j1, Some AttributeError)))"


section \<open>Properties of worker output processing\<close>

lemma statsUuid_neq_rstatsUuid: "statsUuid \<noteq> rstatsUuid"
  by (simp add: statsUuid_def rstatsUuid_def)

text \<open>
  C6, stats: two successive records of the stats kind with payloads \<open>p1\<close> then \<open>p2\<close> leave
  the job's \<open>stats\<close> equal to \<open>p2\<close>, the whole second payload; a key of \<open>p1\<close> that \<open>p2\<close>
  lacks is not in it. The same holds for \<open>rstats\<close> and the recursion-stats kind.
\<close>

theorem stats_full_replacement:
  assumes "dict_get p1 ''uuid'' = Some (JStr statsUuid) \<and> dict_get p2 ''uuid'' = Some (JStr statsUuid)
           \<or> dict_get p1 ''uuid'' = Some (JStr rstatsUuid) \<and> dict_get p2 ''uuid'' = Some (JStr rstatsUuid)"
  shows "\<exists>j1 j2. processLine j (Inr (JObj p1)) = (j1, None)
           \<and> processLine j1 (Inr (JObj p2)) = (j2, None)
           \<and> (if dict_get p2 ''uuid'' = Some (JStr statsUuid)
                then stats j2 = p2 \<and> (\<forall>k. dict_get p2 k = None \<longrightarrow> dict_get (stats j2) k = None)
                else rstats j2 = p2 \<and> (\<forall>k. dict_get p2 k = None \<longrightarrow> dict_get (rstats j2) k = None))"
  using assms statsUuid_neq_rstatsUuid
  by (auto simp: processLine_def Let_def)

theorem stats_full_replacement_witness:
  "dict_get [(''uuid'', JStr statsUuid), (''requests'', JInt 2)] ''uuid'' = Some (JStr statsUuid)
   \<and> stats (fst (processLine (fst (processLine (newJob ''j'' 0 ''http://example.org'' ''alice'')
        (Inr (JObj [(''uuid'', JStr statsUuid), (''requests'', JInt 1), (''failed'', JInt 1)]))))
        (Inr (JObj [(''uuid'', JStr statsUuid), (''requests'', JInt 2)]))))
     = [(''uuid'', JStr statsUuid), (''requests'', JInt 2)]
   \<and> dict_get (stats (fst (processLine (fst (processLine (newJob ''j'' 0 ''http://example.org'' ''alice'')
        (Inr (JObj [(''uuid'', JStr statsUuid), (''requests'', JInt 1), (''failed'', JInt 1)]))))
        (Inr (JObj [(''uuid'', JStr statsUuid), (''requests'', JInt 2)]))))) ''failed'' = None"
  using stats_full_replacement
    [of "[(''uuid'', JStr statsUuid), (''requests'', JInt 1), (''failed'', JInt 1)]"
        "[(''uuid'', JStr statsUuid), (''requests'', JInt 2)]"
        "newJob ''j'' 0 ''http://example.org'' ''alice''"]
  by (auto simp: dict_get_def)




text \<open>
  C5 as the claim states it fails: the first line is the object \<open>{}\<close>, which has no
  message-kind identifier, and the job is \<open>Running\<close> after it.
\<close>

theorem unrecognised_first_line_starts_job:
  "status (fst (processLine (newJob ''j'' 0 ''http://example.org'' ''alice'') (Inr (JObj []))))
     = Running"
  by (simp add: processLine_def newJob_def dict_get_def)

text \<open>
  C5, amended: a \<open>Pending\<close> job becomes \<open>Running\<close> upon the first non-empty output line,
  whatever \<open>json.loads\<close> makes of it (the assignment precedes the decoding); a job that is
  not \<open>Pending\<close> keeps its status over a line.
\<close>

theorem first_line_starts_job:
  "status (fst (processLine j loaded)) = (if status j = Pending then Running else status j)"
  by (simp add: processLine_def Let_def split: sum.split json.split)


end
